theory Spec2Isabelle
  imports Main "HOL-Library.Word"
begin

section \<open>Go values the client works with\<close>

text \<open>
  A Go \<^verbatim>\<open>error\<close> is either a plain message (\<^verbatim>\<open>fmt.Errorf\<close> without \<^verbatim>\<open>%w\<close>, and the
  errors the standard library hands back) or a message wrapping another error
  (\<^verbatim>\<open>fmt.Errorf\<close> with \<^verbatim>\<open>%w\<close>). \<open>Error\<close> is the method \<^verbatim>\<open>Error()\<close>.
\<close>

datatype error = errorString string | wrapError string error

fun Error :: "error \<Rightarrow> string" where
  "Error (errorString s) = s"
| "Error (wrapError msg err) = msg"

text \<open>\<^verbatim>\<open>fmt.Errorf(prefix + "%w", err)\<close>: the message is the prefix followed by the
  message of the wrapped error.\<close>

definition Errorf_w :: "string \<Rightarrow> error \<Rightarrow> error" where
  "Errorf_w prefix err = wrapError (prefix @ Error err) err"

text \<open>The verb \<^verbatim>\<open>%d\<close> of \<^verbatim>\<open>fmt\<close> on an \<^verbatim>\<open>int\<close>: decimal digits, a minus sign when
  negative.\<close>

fun Itoa_nat :: "nat \<Rightarrow> string" where
  "Itoa_nat n =
     (if n < 10 then [''0123456789'' ! n]
      else Itoa_nat (n div 10) @ [''0123456789'' ! (n mod 10)])"

declare Itoa_nat.simps [simp del]

definition fmt_d :: "int \<Rightarrow> string" where
  "fmt_d i = (if i < 0 then CHR ''-'' # Itoa_nat (nat (- i)) else Itoa_nat (nat i))"

text \<open>\<^verbatim>\<open>time.Duration\<close> is an \<^verbatim>\<open>int64\<close> count of nanoseconds.\<close>

type_synonym Duration = "64 word"

definition Second :: Duration where
  "Second = 1000000000"

definition defaultBaseURL :: string where
  "defaultBaseURL = ''https://api.smart-me.com/''"

definition defaultTimeout :: Duration where
  "defaultTimeout = 10 * Second"

text \<open>
  \<^verbatim>\<open>http.Client\<close>: the round tripper (a handle; \<open>None\<close> is Go's \<^verbatim>\<open>nil\<close>, the default
  transport) and the timeout. Its other two fields are neither read nor written by this
  package.
\<close>

record http_Client =
  Transport :: "nat option"
  Timeout :: Duration

text \<open>The struct \<^verbatim>\<open>Client\<close> of client.go. Both pointer fields may be \<^verbatim>\<open>nil\<close>
  (\<open>None\<close>); \<open>'u\<close> is \<^verbatim>\<open>url.URL\<close>.\<close>

record 'u Client =
  httpClient :: "http_Client option"
  baseURL :: "'u option"
  username :: string
  password :: string

text \<open>
  A \<^verbatim>\<open>context.Context\<close> is looked at once by this package, in the \<^verbatim>\<open>select\<close> of
  \<^verbatim>\<open>do\<close>; it is represented by what is found there: \<open>Done err\<close> when its \<^verbatim>\<open>Done()\<close>
  channel is closed, \<open>err\<close> being \<^verbatim>\<open>Err()\<close> (cancellation or deadline), \<open>Active\<close> when
  it is not. \<open>NilContext\<close> is the \<^verbatim>\<open>nil\<close> interface value.
\<close>

datatype Context = NilContext | Active | Done error

record Request =
  Ctx :: Context
  Method :: string
  URL :: string
  Header :: "string \<rightharpoonup> string"
  ReqBody :: "string option"

record Response =
  Status :: string
  StatusCode :: int
  Body :: string

text \<open>Calls that leave the package, in the order they are made.\<close>

datatype event =
    CallParse string
  | CallNewRequest Context string string
  | CallDo http_Client Request
  | CallDecode string
  | CallClose

text \<open>A Go function either returns or panics (a \<^verbatim>\<open>nil\<close> pointer dereference).\<close>

datatype 'a outcome = Returns 'a | Panics

section \<open>The standard library and the server, as parameters\<close>

text \<open>
  Everything this package calls in \<^verbatim>\<open>net/url\<close>, \<^verbatim>\<open>net/http\<close>, \<^verbatim>\<open>time\<close> and
  \<^verbatim>\<open>encoding/json\<close>, and the answer of the network, is a field of the environment:
  \<^item> \<open>url_Parse\<close> is \<^verbatim>\<open>url.Parse\<close>, \<open>ResolveReference\<close> and \<open>URL_String\<close> the two
    methods of \<^verbatim>\<open>*url.URL\<close>;
  \<^item> \<open>NewRequestWithContext_err\<close> is the error of \<^verbatim>\<open>http.NewRequestWithContext\<close> for a
    context, a method and a URL text, \<open>None\<close> when it builds the request;
  \<^item> \<open>basicAuth u p\<close> is the credential text that \<^verbatim>\<open>SetBasicAuth\<close> puts after
    \<^verbatim>\<open>"Basic "\<close> (the base64 form of \<^verbatim>\<open>u:p\<close>);
  \<^item> \<open>Format_RFC3339\<close> is \<^verbatim>\<open>t.Format(time.RFC3339)\<close>, \<open>'t\<close> being \<^verbatim>\<open>time.Time\<close>;
  \<^item> \<open>Client_Do\<close> is \<^verbatim>\<open>(*http.Client).Do\<close>: the transport and the server behind it;
  \<^item> the decoders are \<^verbatim>\<open>json.NewDecoder(body).Decode(v)\<close> at the four destination
    types of models.go (\<open>'d\<close> is \<^verbatim>\<open>Device\<close>, \<open>'dv\<close> is \<^verbatim>\<open>DeviceValues\<close>, \<open>'v\<close> is
    \<^verbatim>\<open>Value\<close>), and the two \<open>zero\<close> fields are the zero values of the two structs.
\<close>

record ('u, 't, 'd, 'dv, 'v) env =
  url_Parse :: "string \<Rightarrow> error + 'u"
  ResolveReference :: "'u \<Rightarrow> 'u \<Rightarrow> 'u"
  URL_String :: "'u \<Rightarrow> string"
  NewRequestWithContext_err :: "Context \<Rightarrow> string \<Rightarrow> string \<Rightarrow> error option"
  basicAuth :: "string \<Rightarrow> string \<Rightarrow> string"
  Format_RFC3339 :: "'t \<Rightarrow> string"
  Client_Do :: "http_Client \<Rightarrow> Request \<Rightarrow> error + Response"
  Decode_Devices :: "string \<Rightarrow> error + 'd list"
  Decode_DeviceValues :: "string \<Rightarrow> error + 'dv"
  Decode_Value :: "string \<Rightarrow> error + 'v"
  Decode_Values :: "string \<Rightarrow> error + 'v list"
  zero_DeviceValues :: 'dv
  zero_Value :: 'v

section \<open>Construction (options.go, NewClient)\<close>

text \<open>
  An \<^verbatim>\<open>Option\<close> is a \<^verbatim>\<open>func(*Client)\<close>. The package makes them with its three
  constructors only, so an option is represented by the constructor call that made it,
  and \<open>apply_Option\<close> is the body of the closure that call returns. The client is passed
  and returned: the closure writes through the pointer. \<^verbatim>\<open>WithTimeout\<close> writes the
  timeout into the \<^verbatim>\<open>http.Client\<close> the field points to.
\<close>

datatype Option =
    WithHTTPClient "http_Client option"
  | WithBaseURL string
  | WithTimeout Duration

fun apply_Option ::
  "('u, 't, 'd, 'dv, 'v) env \<Rightarrow> Option \<Rightarrow> 'u Client \<Rightarrow> 'u Client" where
  "apply_Option env (WithHTTPClient hc) c = c\<lparr>httpClient := hc\<rparr>"
| "apply_Option env (WithBaseURL s) c =
     (case url_Parse env s of
        Inr u \<Rightarrow> c\<lparr>baseURL := Some u\<rparr>
      | Inl err \<Rightarrow> c)"
| "apply_Option env (WithTimeout timeout) c =
     (let hc = (case httpClient c of
                  None \<Rightarrow> \<lparr>Transport = None, Timeout = 0\<rparr>
                | Some h \<Rightarrow> h)
      in c\<lparr>httpClient := Some (hc\<lparr>Timeout := timeout\<rparr>)\<rparr>)"

text \<open>\<^verbatim>\<open>NewClient\<close> returns the pair \<^verbatim>\<open>(*Client, error)\<close>.\<close>

definition NewClient ::
  "('u, 't, 'd, 'dv, 'v) env \<Rightarrow> string \<Rightarrow> string \<Rightarrow> Option list
     \<Rightarrow> 'u Client option \<times> error option" where
  "NewClient env username' password' opts =
     (if username' = [] then (None, Some (errorString ''username must not be empty''))
      else
        let base = (case url_Parse env defaultBaseURL of
                      Inr u \<Rightarrow> Some u
                    | Inl err \<Rightarrow> None);
            c = \<lparr>httpClient = None, baseURL = base,
                 username = username', password = password'\<rparr>;
            c = foldl (\<lambda>c opt. apply_Option env opt c) c opts;
            c = (if httpClient c = None
                 then c\<lparr>httpClient := Some \<lparr>Transport = None, Timeout = defaultTimeout\<rparr>\<rparr>
                 else c)
        in (Some c, None))"

section \<open>The request pipeline (client.go)\<close>

text \<open>\<^verbatim>\<open>req.Header.Set\<close> on a key already in canonical form, and \<^verbatim>\<open>req.SetBasicAuth\<close>.\<close>

definition Header_Set :: "string \<Rightarrow> string \<Rightarrow> Request \<Rightarrow> Request" where
  "Header_Set k v req = req\<lparr>Header := (Header req)(k \<mapsto> v)\<rparr>"

definition SetBasicAuth ::
  "('u, 't, 'd, 'dv, 'v) env \<Rightarrow> string \<Rightarrow> string \<Rightarrow> Request \<Rightarrow> Request" where
  "SetBasicAuth env u p req = Header_Set ''Authorization'' (''Basic '' @ basicAuth env u p) req"

text \<open>
  Every method returns what Go returns (or panics), the client after the call (the
  receiver is a pointer), and the calls it made outside the package. In \<^verbatim>\<open>newRequest\<close> a
  \<^verbatim>\<open>nil\<close> base URL is dereferenced by \<^verbatim>\<open>ResolveReference\<close>, the reference having no
  scheme (every path of this package starts with \<^verbatim>\<open>api/\<close>).
\<close>

definition newRequest ::
  "('u, 't, 'd, 'dv, 'v) env \<Rightarrow> 'u Client \<Rightarrow> Context \<Rightarrow> string \<Rightarrow> string \<Rightarrow> string option
     \<Rightarrow> (error + Request) outcome \<times> 'u Client \<times> event list" where
  "newRequest env c ctx method path body =
     (case url_Parse env path of
        Inl err \<Rightarrow> (Returns (Inl err), c, [CallParse path])
      | Inr rel \<Rightarrow>
          (case baseURL c of
             None \<Rightarrow> (Panics, c, [CallParse path])
           | Some base \<Rightarrow>
               let fullURL = URL_String env (ResolveReference env base rel) in
               (case NewRequestWithContext_err env ctx method fullURL of
                  Some err \<Rightarrow>
                    (Returns (Inl err), c, [CallParse path, CallNewRequest ctx method fullURL])
                | None \<Rightarrow>
                    let req = \<lparr>Ctx = ctx, Method = method, URL = fullURL,
                               Header = Map.empty, ReqBody = body\<rparr>;
                        req = SetBasicAuth env (username c) (password c) req;
                        req = Header_Set ''Accept'' ''application/json'' req;
                        req = (if body \<noteq> None
                               then Header_Set ''Content-Type'' ''application/json'' req
                               else req)
                    in (Returns (Inr req), c,
                        [CallParse path, CallNewRequest ctx method fullURL]))))"

text \<open>
  \<^verbatim>\<open>do\<close> returns the pair \<^verbatim>\<open>(*http.Response, error)\<close>; the third component is what was
  stored through the destination \<open>v\<close>, which is \<open>None\<close> (\<^verbatim>\<open>nil\<close>) or the decoder of the
  destination's type. The deferred \<^verbatim>\<open>Close\<close> runs last.
\<close>

definition do ::
  "('u, 't, 'd, 'dv, 'v) env \<Rightarrow> 'u Client \<Rightarrow> Request \<Rightarrow> (string \<Rightarrow> error + 'a) option
     \<Rightarrow> (Response option \<times> error option \<times> 'a option) outcome \<times> 'u Client \<times> event list" where
  "do env c req v =
     (case httpClient c of
        None \<Rightarrow> (Panics, c, [])
      | Some hc \<Rightarrow>
          (case Client_Do env hc req of
             Inl err \<Rightarrow>
               (case Ctx req of
                  Done cerr \<Rightarrow> (Returns (None, Some cerr, None), c, [CallDo hc req])
                | _ \<Rightarrow> (Returns (None, Some err, None), c, [CallDo hc req]))
           | Inr resp \<Rightarrow>
               if StatusCode resp \<ge> 400 then
                 (Returns (Some resp,
                    Some (errorString (''API error: '' @ Status resp @ '' (status code: ''
                            @ fmt_d (StatusCode resp) @ '')'')),
                    None),
                  c, [CallDo hc req, CallClose])
               else
                 (case v of
                    None \<Rightarrow> (Returns (Some resp, None, None), c, [CallDo hc req, CallClose])
                  | Some decode \<Rightarrow>
                      (case decode (Body resp) of
                         Inl err \<Rightarrow>
                           (Returns (Some resp,
                              Some (Errorf_w ''error decoding response: '' err), None),
                            c, [CallDo hc req, CallDecode (Body resp), CallClose])
                       | Inr x \<Rightarrow>
                           (Returns (Some resp, None, Some x),
                            c, [CallDo hc req, CallDecode (Body resp), CallClose])))))"

definition GetDevices ::
  "('u, 't, 'd, 'dv, 'v) env \<Rightarrow> 'u Client \<Rightarrow> Context
     \<Rightarrow> (error + 'd list) outcome \<times> 'u Client \<times> event list" where
  "GetDevices env c ctx =
     (case newRequest env c ctx ''GET'' ''api/Devices'' None of
        (Panics, c1, t1) \<Rightarrow> (Panics, c1, t1)
      | (Returns (Inl err), c1, t1) \<Rightarrow>
          (Returns (Inl (Errorf_w ''failed to create request: '' err)), c1, t1)
      | (Returns (Inr req), c1, t1) \<Rightarrow>
          (case do env c1 req (Some (Decode_Devices env)) of
             (Panics, c2, t2) \<Rightarrow> (Panics, c2, t1 @ t2)
           | (Returns (resp, Some err, w), c2, t2) \<Rightarrow> (Returns (Inl err), c2, t1 @ t2)
           | (Returns (resp, None, w), c2, t2) \<Rightarrow>
               (Returns (Inr (case w of Some devices \<Rightarrow> devices | None \<Rightarrow> [])),
                c2, t1 @ t2)))"

definition GetValues ::
  "('u, 't, 'd, 'dv, 'v) env \<Rightarrow> 'u Client \<Rightarrow> Context \<Rightarrow> string
     \<Rightarrow> (error + 'dv) outcome \<times> 'u Client \<times> event list" where
  "GetValues env c ctx deviceID =
     (if deviceID = [] then
        (Returns (Inl (errorString ''deviceID must not be empty'')), c, [])
      else
        let path = ''api/Values/'' @ deviceID in
        (case newRequest env c ctx ''GET'' path None of
           (Panics, c1, t1) \<Rightarrow> (Panics, c1, t1)
         | (Returns (Inl err), c1, t1) \<Rightarrow>
             (Returns (Inl (Errorf_w ''failed to create request: '' err)), c1, t1)
         | (Returns (Inr req), c1, t1) \<Rightarrow>
             (case do env c1 req (Some (Decode_DeviceValues env)) of
                (Panics, c2, t2) \<Rightarrow> (Panics, c2, t1 @ t2)
              | (Returns (resp, Some err, w), c2, t2) \<Rightarrow> (Returns (Inl err), c2, t1 @ t2)
              | (Returns (resp, None, w), c2, t2) \<Rightarrow>
                  (Returns (Inr (case w of Some deviceValues \<Rightarrow> deviceValues
                                 | None \<Rightarrow> zero_DeviceValues env)),
                   c2, t1 @ t2))))"

definition GetValuesInPast ::
  "('u, 't, 'd, 'dv, 'v) env \<Rightarrow> 'u Client \<Rightarrow> Context \<Rightarrow> string \<Rightarrow> 't
     \<Rightarrow> (error + 'v) outcome \<times> 'u Client \<times> event list" where
  "GetValuesInPast env c ctx deviceID date =
     (if deviceID = [] then
        (Returns (Inl (errorString ''deviceID must not be empty'')), c, [])
      else
        let path = ''api/ValuesInPast/'' @ deviceID @ ''?date='' @ Format_RFC3339 env date in
        (case newRequest env c ctx ''GET'' path None of
           (Panics, c1, t1) \<Rightarrow> (Panics, c1, t1)
         | (Returns (Inl err), c1, t1) \<Rightarrow>
             (Returns (Inl (Errorf_w ''failed to create request: '' err)), c1, t1)
         | (Returns (Inr req), c1, t1) \<Rightarrow>
             (case do env c1 req (Some (Decode_Value env)) of
                (Panics, c2, t2) \<Rightarrow> (Panics, c2, t1 @ t2)
              | (Returns (resp, Some err, w), c2, t2) \<Rightarrow> (Returns (Inl err), c2, t1 @ t2)
              | (Returns (resp, None, w), c2, t2) \<Rightarrow>
                  (Returns (Inr (case w of Some value \<Rightarrow> value | None \<Rightarrow> zero_Value env)),
                   c2, t1 @ t2))))"

definition GetValuesInPastMultiple ::
  "('u, 't, 'd, 'dv, 'v) env \<Rightarrow> 'u Client \<Rightarrow> Context \<Rightarrow> string \<Rightarrow> 't \<Rightarrow> 't
     \<Rightarrow> (error + 'v list) outcome \<times> 'u Client \<times> event list" where
  "GetValuesInPastMultiple env c ctx deviceID startDate endDate =
     (if deviceID = [] then
        (Returns (Inl (errorString ''deviceID must not be empty'')), c, [])
      else
        let path = ''api/ValuesInPastMultiple/'' @ deviceID
                     @ ''?startDate='' @ Format_RFC3339 env startDate
                     @ ''&endDate='' @ Format_RFC3339 env endDate in
        (case newRequest env c ctx ''GET'' path None of
           (Panics, c1, t1) \<Rightarrow> (Panics, c1, t1)
         | (Returns (Inl err), c1, t1) \<Rightarrow>
             (Returns (Inl (Errorf_w ''failed to create request: '' err)), c1, t1)
         | (Returns (Inr req), c1, t1) \<Rightarrow>
             (case do env c1 req (Some (Decode_Values env)) of
                (Panics, c2, t2) \<Rightarrow> (Panics, c2, t1 @ t2)
              | (Returns (resp, Some err, w), c2, t2) \<Rightarrow> (Returns (Inl err), c2, t1 @ t2)
              | (Returns (resp, None, w), c2, t2) \<Rightarrow>
                  (Returns (Inr (case w of Some values \<Rightarrow> values | None \<Rightarrow> [])),
                   c2, t1 @ t2))))"

text \<open>The three components of what a method yields.\<close>

definition result :: "'a \<times> 'b \<times> 'c \<Rightarrow> 'a" where
  "result r = fst r"

definition client_after :: "'a \<times> 'b \<times> 'c \<Rightarrow> 'b" where
  "client_after r = fst (snd r)"

definition calls :: "'a \<times> 'b \<times> 'c \<Rightarrow> 'c" where
  "calls r = snd (snd r)"

text \<open>The paths handed to \<^verbatim>\<open>url.Parse\<close>, the requests handed to the transport, and the
  bodies handed to the JSON decoder, among the calls made.\<close>

fun parsed_paths :: "event list \<Rightarrow> string list" where
  "parsed_paths [] = []"
| "parsed_paths (CallParse p # es) = p # parsed_paths es"
| "parsed_paths (e # es) = parsed_paths es"

fun sent_requests :: "event list \<Rightarrow> Request list" where
  "sent_requests [] = []"
| "sent_requests (CallDo hc req # es) = req # sent_requests es"
| "sent_requests (e # es) = sent_requests es"

fun decoded_bodies :: "event list \<Rightarrow> string list" where
  "decoded_bodies [] = []"
| "decoded_bodies (CallDecode b # es) = b # decoded_bodies es"
| "decoded_bodies (e # es) = decoded_bodies es"

text \<open>The message the specification gives for a response of status 400 or more.\<close>

definition spec_api_error_message :: "string \<Rightarrow> int \<Rightarrow> string" where
  "spec_api_error_message status_text status_code =
     ''API error: '' @ status_text @ '' (status code: '' @ fmt_d status_code @ '')''"

text \<open>
  The four API methods repeat one block: build the request, wrap a construction error,
  run \<open>do\<close> with the destination, return the error or the destination. The block on
  its own, for the proofs: \<open>zero\<close> is the destination before the call.
\<close>

definition request_and_decode ::
  "('u, 't, 'd, 'dv, 'v) env \<Rightarrow> 'u Client \<Rightarrow> Context \<Rightarrow> string \<Rightarrow> (string \<Rightarrow> error + 'a) \<Rightarrow> 'a
     \<Rightarrow> (error + 'a) outcome \<times> 'u Client \<times> event list" where
  "request_and_decode env c ctx path decode zero =
     (case newRequest env c ctx ''GET'' path None of
        (Panics, c1, t1) \<Rightarrow> (Panics, c1, t1)
      | (Returns (Inl err), c1, t1) \<Rightarrow>
          (Returns (Inl (Errorf_w ''failed to create request: '' err)), c1, t1)
      | (Returns (Inr req), c1, t1) \<Rightarrow>
          (case do env c1 req (Some decode) of
             (Panics, c2, t2) \<Rightarrow> (Panics, c2, t1 @ t2)
           | (Returns (resp, Some err, w), c2, t2) \<Rightarrow> (Returns (Inl err), c2, t1 @ t2)
           | (Returns (resp, None, w), c2, t2) \<Rightarrow>
               (Returns (Inr (case w of Some x \<Rightarrow> x | None \<Rightarrow> zero)), c2, t1 @ t2)))"

section \<open>A test double\<close>

text \<open>
  A stand-in for the standard library and a server that answers every request with
  status 500, to run the client on concrete inputs: a URL is its text, a reference that
  holds a \<^verbatim>\<open>%\<close> does not parse, resolving appends, a time is its RFC 3339 text.
\<close>

definition test_env :: "(string, string, nat, nat, nat) env" where
  "test_env =
     \<lparr>url_Parse = (\<lambda>s. if CHR ''%'' \<in> set s then Inl (errorString ''invalid URL escape'')
                        else Inr s),
      ResolveReference = (\<lambda>base rel. base @ rel),
      URL_String = (\<lambda>u. u),
      NewRequestWithContext_err = (\<lambda>ctx method u. None),
      basicAuth = (\<lambda>u p. u @ '':'' @ p),
      Format_RFC3339 = (\<lambda>t. t),
      Client_Do = (\<lambda>hc req. Inr \<lparr>Status = ''500 Internal Server Error'', StatusCode = 500,
                                   Body = ''Internal Server Error''\<rparr>),
      Decode_Devices = (\<lambda>b. Inr []),
      Decode_DeviceValues = (\<lambda>b. Inr 0),
      Decode_Value = (\<lambda>b. Inr 0),
      Decode_Values = (\<lambda>b. Inr []),
      zero_DeviceValues = 0,
      zero_Value = 0\<rparr>"

text \<open>The client \<^verbatim>\<open>NewClient("test-user", "test-pass")\<close> builds on the test double.\<close>

definition test_client :: "string Client" where
  "test_client =
     \<lparr>httpClient = Some \<lparr>Transport = None, Timeout = defaultTimeout\<rparr>,
      baseURL = Some defaultBaseURL, username = ''test-user'', password = ''test-pass''\<rparr>"

text \<open>The same test double with a transport that cannot reach the server.\<close>

definition offline_env :: "(string, string, nat, nat, nat) env" where
  "offline_env =
     test_env\<lparr>Client_Do := (\<lambda>hc req. Inl (errorString ''dial tcp: connection refused''))\<rparr>"

text \<open>The client as the loop over the options in \<^verbatim>\<open>NewClient\<close> leaves it, before the
  check for a missing transport.\<close>

definition after_options ::
  "('u, 't, 'd, 'dv, 'v) env \<Rightarrow> string \<Rightarrow> string \<Rightarrow> Option list \<Rightarrow> 'u Client" where
  "after_options env username' password' opts =
     foldl (\<lambda>c opt. apply_Option env opt c)
       \<lparr>httpClient = None,
        baseURL = (case url_Parse env defaultBaseURL of Inr u \<Rightarrow> Some u | Inl err \<Rightarrow> None),
        username = username', password = password'\<rparr>
       opts"

text \<open>The headers the specification asks of a request built for the credentials \<open>u\<close>,
  \<open>p\<close> and the body \<open>body\<close>.\<close>

definition spec_headers ::
  "('u, 't, 'd, 'dv, 'v) env \<Rightarrow> string \<Rightarrow> string \<Rightarrow> string option \<Rightarrow> Request \<Rightarrow> bool" where
  "spec_headers env u p body req =
     (Header req ''Authorization'' = Some (''Basic '' @ basicAuth env u p)
      \<and> Header req ''Accept'' = Some ''application/json''
      \<and> (Header req ''Content-Type'' = Some ''application/json'') = (body \<noteq> None)
      \<and> (Header req ''Content-Type'' = None) = (body = None))"

section \<open>Auxiliary facts\<close>

subsection \<open>Reading the three components\<close>

lemma result_simp [simp]: "result (a, b, c) = a" by (simp add: result_def)

lemma client_after_simp [simp]: "client_after (a, b, c) = b" by (simp add: client_after_def)

lemma calls_simp [simp]: "calls (a, b, c) = c" by (simp add: calls_def)

subsection \<open>The calls of a sequence of two steps\<close>

lemma parsed_paths_append: "parsed_paths (xs @ ys) = parsed_paths xs @ parsed_paths ys"
  by (induction xs rule: parsed_paths.induct) auto

lemma sent_requests_append: "sent_requests (xs @ ys) = sent_requests xs @ sent_requests ys"
  by (induction xs rule: sent_requests.induct) auto

lemma decoded_bodies_append: "decoded_bodies (xs @ ys) = decoded_bodies xs @ decoded_bodies ys"
  by (induction xs rule: decoded_bodies.induct) auto

subsection \<open>Each method is its guard followed by the common block\<close>

lemma GetDevices_block:
  "GetDevices env c ctx = request_and_decode env c ctx ''api/Devices'' (Decode_Devices env) []"
  by (simp add: GetDevices_def request_and_decode_def)

lemma GetValues_block:
  "deviceID \<noteq> [] \<Longrightarrow> GetValues env c ctx deviceID =
     request_and_decode env c ctx (''api/Values/'' @ deviceID) (Decode_DeviceValues env) (zero_DeviceValues env)"
  by (simp add: GetValues_def request_and_decode_def)

lemma GetValuesInPast_block:
  "deviceID \<noteq> [] \<Longrightarrow> GetValuesInPast env c ctx deviceID date =
     request_and_decode env c ctx (''api/ValuesInPast/'' @ deviceID @ ''?date='' @ Format_RFC3339 env date)
       (Decode_Value env) (zero_Value env)"
  by (simp add: GetValuesInPast_def request_and_decode_def)

lemma GetValuesInPastMultiple_block:
  "deviceID \<noteq> [] \<Longrightarrow> GetValuesInPastMultiple env c ctx deviceID startDate endDate =
     request_and_decode env c ctx
       (''api/ValuesInPastMultiple/'' @ deviceID @ ''?startDate='' @ Format_RFC3339 env startDate
          @ ''&endDate='' @ Format_RFC3339 env endDate)
       (Decode_Values env) []"
  by (simp add: GetValuesInPastMultiple_def request_and_decode_def)

lemma GetValues_empty:
  "GetValues env c ctx [] = (Returns (Inl (errorString ''deviceID must not be empty'')), c, [])"
  by (simp add: GetValues_def)

lemma GetValuesInPast_empty:
  "GetValuesInPast env c ctx [] date =
     (Returns (Inl (errorString ''deviceID must not be empty'')), c, [])"
  by (simp add: GetValuesInPast_def)

lemma GetValuesInPastMultiple_empty:
  "GetValuesInPastMultiple env c ctx [] startDate endDate =
     (Returns (Inl (errorString ''deviceID must not be empty'')), c, [])"
  by (simp add: GetValuesInPastMultiple_def)

subsection \<open>What newRequest and do yield\<close>

lemma newRequest_shape:
  assumes "newRequest env c ctx m p b = (r, c', t)"
  shows "c' = c" and "parsed_paths t = [p]" and "sent_requests t = []"
    and "decoded_bodies t = []" and "\<forall>hc rq. CallDo hc rq \<notin> set t"
  using assms
  by (auto simp: newRequest_def Let_def split: sum.splits option.splits)

lemma newRequest_request:
  assumes "newRequest env c ctx m p b = (Returns (Inr req), c', t)"
  shows "Ctx req = ctx"
    and "Header req ''Authorization'' = Some (''Basic '' @ basicAuth env (username c) (password c))"
    and "Header req ''Accept'' = Some ''application/json''"
    and "Header req ''Content-Type'' = (if b = None then None else Some ''application/json'')"
    and "ReqBody req = b"
  using assms
  by (auto simp: newRequest_def Let_def SetBasicAuth_def Header_Set_def split: sum.splits option.splits if_splits)

lemma newRequest_spec_headers:
  assumes "newRequest env c ctx m path body = (Returns (Inr req), c', t)"
  shows "spec_headers env (username c) (password c) body req"
  using newRequest_request(2,3,4) [OF assms] by (auto simp: spec_headers_def)

lemma do_shape:
  assumes "do env c req v = (r, c', t)"
  shows "c' = c" and "parsed_paths t = []" and "\<forall>hc rq. CallDo hc rq \<in> set t \<longrightarrow> rq = req \<and> httpClient c = Some hc"
   and "set (sent_requests t) \<subseteq> {req}"
  using assms
  by (auto simp: do_def split: sum.splits option.splits Context.splits if_splits)

lemma do_status_error:
  assumes "httpClient c = Some hc" and "Client_Do env hc req = Inr resp" and "400 \<le> StatusCode resp"
  shows "do env c req v =
     (Returns (Some resp, Some (errorString (spec_api_error_message (Status resp) (StatusCode resp))), None),
      c, [CallDo hc req, CallClose])"
  using assms by (simp add: do_def spec_api_error_message_def)

lemma do_transport_error:
  assumes "httpClient c = Some hc" and "Client_Do env hc req = Inl err"
  shows "do env c req v =
     (Returns (None, Some (case Ctx req of Done cerr \<Rightarrow> cerr | _ \<Rightarrow> err), None), c, [CallDo hc req])"
  using assms by (simp add: do_def split: Context.splits)

subsection \<open>The common block, by cases on its two steps\<close>

lemma block_cases:
  obtains (panic1) t1 where "newRequest env c ctx ''GET'' p None = (Panics, c, t1)"
      "request_and_decode env c ctx p d z = (Panics, c, t1)"
  | (err1) e t1 where "newRequest env c ctx ''GET'' p None = (Returns (Inl e), c, t1)"
      "request_and_decode env c ctx p d z = (Returns (Inl (Errorf_w ''failed to create request: '' e)), c, t1)"
  | (sent) req t1 r2 t2 where "newRequest env c ctx ''GET'' p None = (Returns (Inr req), c, t1)"
      "do env c req (Some d) = (r2, c, t2)"
      "request_and_decode env c ctx p d z =
         ((case r2 of Panics \<Rightarrow> Panics
           | Returns (resp, Some err, w) \<Rightarrow> Returns (Inl err)
           | Returns (resp, None, w) \<Rightarrow> Returns (Inr (case w of Some x \<Rightarrow> x | None \<Rightarrow> z))), c, t1 @ t2)"
proof -
  obtain r1 c1 t1 where n: "newRequest env c ctx ''GET'' p None = (r1, c1, t1)"
    by (cases "newRequest env c ctx ''GET'' p None") auto
  from newRequest_shape(1) [OF n] have c1: "c1 = c" .
  show thesis
  proof (cases r1)
    case Panics
    with n c1 show thesis by (intro panic1 [of t1]) (simp_all add: request_and_decode_def)
  next
    case (Returns x)
    show thesis
    proof (cases x)
      case (Inl e)
      with n c1 Returns show thesis by (intro err1 [of e t1]) (simp_all add: request_and_decode_def)
    next
      case (Inr req)
      obtain r2 c2 t2 where d: "do env c req (Some d) = (r2, c2, t2)"
        by (cases "do env c req (Some d)") auto
      from do_shape(1) [OF d] have c2: "c2 = c" .
      from n c1 Returns Inr d c2 show thesis
        by (intro sent [of req t1 r2 t2])
           (simp_all add: request_and_decode_def split: outcome.splits option.splits)
    qed
  qed
qed

lemma block_client: "client_after (request_and_decode env c ctx p d z) = c"
  by (cases rule: block_cases [of env c ctx p d z]) simp_all

lemma block_paths: "parsed_paths (calls (request_and_decode env c ctx p d z)) = [p]"
proof (cases rule: block_cases [of env c ctx p d z])
  case (panic1 t1)
  then show ?thesis using newRequest_shape(2) by fastforce
next
  case (err1 e t1)
  then show ?thesis using newRequest_shape(2) by fastforce
next
  case (sent req t1 r2 t2)
  then show ?thesis using newRequest_shape(2) [OF sent(1)] do_shape(2) [OF sent(2)]
    by (simp add: parsed_paths_append)
qed

lemma block_sent_request:
  assumes "r \<in> set (sent_requests (calls (request_and_decode env c ctx path d z)))"
  shows "\<exists>t. newRequest env c ctx ''GET'' path None = (Returns (Inr r), c, t)"
proof (cases rule: block_cases [of env c ctx path d z])
  case (panic1 t1)
  with assms newRequest_shape(3) [OF panic1(1)] show ?thesis by simp
next
  case (err1 e t1)
  with assms newRequest_shape(3) [OF err1(1)] show ?thesis by simp
next
  case (sent req t1 r2 t2)
  from assms sent(3) newRequest_shape(3) [OF sent(1)] have "r \<in> set (sent_requests t2)"
    by (simp add: sent_requests_append)
  with do_shape(4) [OF sent(2)] have "r = req" by auto
  with sent(1) show ?thesis by blast
qed

lemma block_sent_headers:
  assumes "r \<in> set (sent_requests (calls (request_and_decode env c ctx path d z)))"
  shows "spec_headers env (username c) (password c) None r"
  using block_sent_request [OF assms] newRequest_spec_headers by blast

lemma block_status_error:
  assumes snt: "CallDo hc req \<in> set (calls (request_and_decode env c ctx p d z))"
    and resp: "Client_Do env hc req = Inr resp" and code: "400 \<le> StatusCode resp"
  shows "result (request_and_decode env c ctx p d z) =
           Returns (Inl (errorString (spec_api_error_message (Status resp) (StatusCode resp))))
         \<and> decoded_bodies (calls (request_and_decode env c ctx p d z)) = []"
proof (cases rule: block_cases [of env c ctx p d z])
  case (panic1 t1)
  with snt newRequest_shape(5) [OF panic1(1)] show ?thesis by simp
next
  case (err1 e t1)
  with snt newRequest_shape(5) [OF err1(1)] show ?thesis by simp
next
  case (sent req' t1 r2 t2)
  from snt sent(3) newRequest_shape(5) [OF sent(1)] have "CallDo hc req \<in> set t2" by simp
  with do_shape(3) [OF sent(2)] have eq: "req = req'" "httpClient c = Some hc" by auto
  from do_status_error [OF eq(2) resp code, of "Some d"] sent(2) eq(1)
  have "r2 = Returns (Some resp, Some (errorString (spec_api_error_message (Status resp) (StatusCode resp))), None)"
    and "t2 = [CallDo hc req, CallClose]" by simp_all
  with sent(3) newRequest_shape(4) [OF sent(1)] show ?thesis
    by (simp add: decoded_bodies_append)
qed

lemma block_status_error_built:
  assumes built: "newRequest env c ctx ''GET'' p None = (Returns (Inr req), c', t)"
    and hc: "httpClient c = Some hc"
    and resp: "Client_Do env hc req = Inr resp" and code: "400 \<le> StatusCode resp"
  shows "request_and_decode env c ctx p d z =
     (Returns (Inl (errorString (spec_api_error_message (Status resp) (StatusCode resp)))), c,
      t @ [CallDo hc req, CallClose])"
proof -
  from newRequest_shape(1) [OF built] have c': "c' = c" .
  from built c' do_status_error [OF hc resp code, of "Some d"] show ?thesis
    by (simp add: request_and_decode_def)
qed

lemma block_transport_error:
  assumes snt: "CallDo hc req \<in> set (calls (request_and_decode env c ctx p d z))"
    and fail: "Client_Do env hc req = Inl err"
  shows "result (request_and_decode env c ctx p d z) =
           Returns (Inl (case ctx of Done cerr \<Rightarrow> cerr | _ \<Rightarrow> err))"
proof (cases rule: block_cases [of env c ctx p d z])
  case (panic1 t1)
  with snt newRequest_shape(5) [OF panic1(1)] show ?thesis by simp
next
  case (err1 e t1)
  with snt newRequest_shape(5) [OF err1(1)] show ?thesis by simp
next
  case (sent req' t1 r2 t2)
  from snt sent(3) newRequest_shape(5) [OF sent(1)] have "CallDo hc req \<in> set t2" by simp
  with do_shape(3) [OF sent(2)] have eq: "req = req'" "httpClient c = Some hc" by auto
  from do_transport_error [OF eq(2) fail, of "Some d"] sent(2) eq(1)
  have "r2 = Returns (None, Some (case Ctx req of Done cerr \<Rightarrow> cerr | _ \<Rightarrow> err), None)" by simp
  moreover from newRequest_request(1) [OF sent(1)] eq(1) have "Ctx req = ctx" by simp
  ultimately show ?thesis using sent(3) by simp
qed

lemma block_parse_error:
  assumes "url_Parse env path = Inl e"
  shows "request_and_decode env c ctx path d z =
     (Returns (Inl (Errorf_w ''failed to create request: '' e)), c, [CallParse path])"
  using assms by (simp add: request_and_decode_def newRequest_def)

lemma block_parse_ok:
  assumes "url_Parse env path = Inr rel" and "baseURL c = Some base"
  shows "\<exists>rest. calls (request_and_decode env c ctx path d z) =
     CallParse path # CallNewRequest ctx ''GET'' (URL_String env (ResolveReference env base rel)) # rest"
proof (cases rule: block_cases [of env c ctx path d z])
  case (panic1 t1)
  with assms show ?thesis
    by (auto simp: newRequest_def Let_def split: option.splits)
next
  case (err1 e t1)
  with assms show ?thesis
    by (auto simp: newRequest_def Let_def split: option.splits)
next
  case (sent req t1 r2 t2)
  with assms show ?thesis
    by (auto simp: newRequest_def Let_def split: option.splits)
qed

subsection \<open>Construction\<close>

lemma apply_Option_credentials:
  "username (apply_Option env opt c) = username c \<and> password (apply_Option env opt c) = password c"
  by (cases opt) (simp_all add: Let_def split: sum.splits)

lemma foldl_apply_Option_credentials:
  "username (foldl (\<lambda>c opt. apply_Option env opt c) c opts) = username c
   \<and> password (foldl (\<lambda>c opt. apply_Option env opt c) c opts) = password c"
  by (induction opts arbitrary: c) (simp_all add: apply_Option_credentials)

lemma NewClient_after_options:
  "username' \<noteq> [] \<Longrightarrow>
   NewClient env username' password' opts =
     (Some (if httpClient (after_options env username' password' opts) = None
            then (after_options env username' password' opts)
                   \<lparr>httpClient := Some \<lparr>Transport = None, Timeout = defaultTimeout\<rparr>\<rparr>
            else after_options env username' password' opts), None)"
  by (simp add: NewClient_def after_options_def Let_def)

lemma NewClient_credentials:
  assumes "NewClient env u p opts = (Some c, None)"
  shows "username c = u" and "password c = p"
proof -
  from assms have ne: "u \<noteq> []" by (auto simp: NewClient_def split: if_splits)
  from assms NewClient_after_options [OF ne, of env p opts]
  have "username c = username (after_options env u p opts)
      \<and> password c = password (after_options env u p opts)"
    by (auto split: if_splits)
  then show "username c = u" and "password c = p"
    by (simp_all add: after_options_def foldl_apply_Option_credentials)
qed

lemma NewClient_drop_option:
  assumes "\<And>c. apply_Option env opt c = c"
  shows "NewClient env u p (opts @ opt # opts') = NewClient env u p (opts @ opts')"
  by (simp add: NewClient_def assms)

lemma after_options_no_transport:
  assumes "\<forall>opt \<in> set opts. \<exists>s. opt = WithBaseURL s"
  shows "httpClient (after_options env u p opts) = None"
proof -
  have "\<And>c :: 'a Client. httpClient (foldl (\<lambda>c opt. apply_Option env opt c) c opts) = httpClient c"
    using assms
  proof (induction opts)
    case Nil
    then show ?case by simp
  next
    case (Cons opt opts)
    from Cons.prems obtain s where "opt = WithBaseURL s" by auto
    then have "httpClient (apply_Option env opt c) = httpClient c"
      by (simp split: sum.splits)
    with Cons show ?case by simp
  qed
  then show ?thesis by (simp add: after_options_def)
qed

lemma sint_defaultTimeout: "sint defaultTimeout = 10 * 1000000000"
  by (simp add: defaultTimeout_def Second_def)

lemma fmt_d_500: "fmt_d 500 = ''500''"
  by (simp add: fmt_d_def Itoa_nat.simps)

section \<open>The claims\<close>

text \<open>
  C1. Let the transport answer a request with a response whose status code is 400 or
  more. Then \<^verbatim>\<open>do\<close>, on a client that has a transport, returns the response together with
  an error whose message is exactly
  \<^verbatim>\<open>API error: <status text> (status code: <status code>)\<close>, the status text being the
  field \<^verbatim>\<open>Status\<close> of the response; it calls the transport, closes the body and never
  calls the JSON decoder, whatever the destination. Each of the four API methods, once
  \<^verbatim>\<open>newRequest\<close> has built that request for its path, returns that error, and its calls
  are those of \<^verbatim>\<open>newRequest\<close>, the call of the transport and the closing of the body.
  Conversely, whenever a method has handed a request to the transport and been answered
  so, it has returned that error and decoded nothing. With the status text
  \<^verbatim>\<open>500 Internal Server Error\<close> and the code 500 the message is
  \<^verbatim>\<open>API error: 500 Internal Server Error (status code: 500)\<close>.
\<close>

theorem api_error_for_status_400_and_above:
  assumes "Client_Do env hc req = Inr resp" and "400 \<le> StatusCode resp"
  shows
    "(httpClient c = Some hc \<longrightarrow>
        do env c req v =
          (Returns (Some resp,
             Some (errorString (spec_api_error_message (Status resp) (StatusCode resp))), None),
           c, [CallDo hc req, CallClose]))
     \<and> (httpClient c = Some hc
          \<and> newRequest env c ctx ''GET'' ''api/Devices'' None = (Returns (Inr req), c', t) \<longrightarrow>
        GetDevices env c ctx =
          (Returns (Inl (errorString (spec_api_error_message (Status resp) (StatusCode resp)))),
           c, t @ [CallDo hc req, CallClose]))
     \<and> (deviceID \<noteq> [] \<and> httpClient c = Some hc
          \<and> newRequest env c ctx ''GET'' (''api/Values/'' @ deviceID) None
              = (Returns (Inr req), c', t) \<longrightarrow>
        GetValues env c ctx deviceID =
          (Returns (Inl (errorString (spec_api_error_message (Status resp) (StatusCode resp)))),
           c, t @ [CallDo hc req, CallClose]))
     \<and> (deviceID \<noteq> [] \<and> httpClient c = Some hc
          \<and> newRequest env c ctx ''GET''
                (''api/ValuesInPast/'' @ deviceID @ ''?date='' @ Format_RFC3339 env date) None
              = (Returns (Inr req), c', t) \<longrightarrow>
        GetValuesInPast env c ctx deviceID date =
          (Returns (Inl (errorString (spec_api_error_message (Status resp) (StatusCode resp)))),
           c, t @ [CallDo hc req, CallClose]))
     \<and> (deviceID \<noteq> [] \<and> httpClient c = Some hc
          \<and> newRequest env c ctx ''GET''
                (''api/ValuesInPastMultiple/'' @ deviceID
                   @ ''?startDate='' @ Format_RFC3339 env startDate
                   @ ''&endDate='' @ Format_RFC3339 env endDate) None
              = (Returns (Inr req), c', t) \<longrightarrow>
        GetValuesInPastMultiple env c ctx deviceID startDate endDate =
          (Returns (Inl (errorString (spec_api_error_message (Status resp) (StatusCode resp)))),
           c, t @ [CallDo hc req, CallClose]))
     \<and> (CallDo hc req \<in> set (calls (GetDevices env c ctx)) \<longrightarrow>
        result (GetDevices env c ctx) =
          Returns (Inl (errorString (spec_api_error_message (Status resp) (StatusCode resp))))
        \<and> decoded_bodies (calls (GetDevices env c ctx)) = [])
     \<and> (CallDo hc req \<in> set (calls (GetValues env c ctx deviceID)) \<longrightarrow>
        result (GetValues env c ctx deviceID) =
          Returns (Inl (errorString (spec_api_error_message (Status resp) (StatusCode resp))))
        \<and> decoded_bodies (calls (GetValues env c ctx deviceID)) = [])
     \<and> (CallDo hc req \<in> set (calls (GetValuesInPast env c ctx deviceID date)) \<longrightarrow>
        result (GetValuesInPast env c ctx deviceID date) =
          Returns (Inl (errorString (spec_api_error_message (Status resp) (StatusCode resp))))
        \<and> decoded_bodies (calls (GetValuesInPast env c ctx deviceID date)) = [])
     \<and> (CallDo hc req \<in> set (calls (GetValuesInPastMultiple env c ctx deviceID startDate endDate)) \<longrightarrow>
        result (GetValuesInPastMultiple env c ctx deviceID startDate endDate) =
          Returns (Inl (errorString (spec_api_error_message (Status resp) (StatusCode resp))))
        \<and> decoded_bodies (calls (GetValuesInPastMultiple env c ctx deviceID startDate endDate)) = [])"
proof -
  note blk = block_status_error [OF _ assms]
  note built = block_status_error_built [OF _ _ assms]
  have low: "httpClient c = Some hc \<longrightarrow>
        do env c req v =
          (Returns (Some resp,
             Some (errorString (spec_api_error_message (Status resp) (StatusCode resp))), None),
           c, [CallDo hc req, CallClose])"
    by (rule impI) (rule do_status_error [OF _ assms])
  have devices': "httpClient c = Some hc
          \<and> newRequest env c ctx ''GET'' ''api/Devices'' None = (Returns (Inr req), c', t) \<longrightarrow>
        GetDevices env c ctx =
          (Returns (Inl (errorString (spec_api_error_message (Status resp) (StatusCode resp)))),
           c, t @ [CallDo hc req, CallClose])"
    unfolding GetDevices_block by (intro impI, elim conjE, erule (1) built)
  have vals': "deviceID \<noteq> [] \<and> httpClient c = Some hc
          \<and> newRequest env c ctx ''GET'' (''api/Values/'' @ deviceID) None
              = (Returns (Inr req), c', t) \<longrightarrow>
        GetValues env c ctx deviceID =
          (Returns (Inl (errorString (spec_api_error_message (Status resp) (StatusCode resp)))),
           c, t @ [CallDo hc req, CallClose])"
  proof (intro impI, elim conjE)
    assume ne: "deviceID \<noteq> []" and hc: "httpClient c = Some hc"
      and b: "newRequest env c ctx ''GET'' (''api/Values/'' @ deviceID) None
              = (Returns (Inr req), c', t)"
    show "GetValues env c ctx deviceID =
          (Returns (Inl (errorString (spec_api_error_message (Status resp) (StatusCode resp)))),
           c, t @ [CallDo hc req, CallClose])"
      unfolding GetValues_block [OF ne] by (rule built [OF b hc])
  qed
  have past': "deviceID \<noteq> [] \<and> httpClient c = Some hc
          \<and> newRequest env c ctx ''GET''
                (''api/ValuesInPast/'' @ deviceID @ ''?date='' @ Format_RFC3339 env date) None
              = (Returns (Inr req), c', t) \<longrightarrow>
        GetValuesInPast env c ctx deviceID date =
          (Returns (Inl (errorString (spec_api_error_message (Status resp) (StatusCode resp)))),
           c, t @ [CallDo hc req, CallClose])"
  proof (intro impI, elim conjE)
    assume ne: "deviceID \<noteq> []" and hc: "httpClient c = Some hc"
      and b: "newRequest env c ctx ''GET''
                (''api/ValuesInPast/'' @ deviceID @ ''?date='' @ Format_RFC3339 env date) None
              = (Returns (Inr req), c', t)"
    show "GetValuesInPast env c ctx deviceID date =
          (Returns (Inl (errorString (spec_api_error_message (Status resp) (StatusCode resp)))),
           c, t @ [CallDo hc req, CallClose])"
      unfolding GetValuesInPast_block [OF ne] by (rule built [OF b hc])
  qed
  have multiple': "deviceID \<noteq> [] \<and> httpClient c = Some hc
          \<and> newRequest env c ctx ''GET''
                (''api/ValuesInPastMultiple/'' @ deviceID
                   @ ''?startDate='' @ Format_RFC3339 env startDate
                   @ ''&endDate='' @ Format_RFC3339 env endDate) None
              = (Returns (Inr req), c', t) \<longrightarrow>
        GetValuesInPastMultiple env c ctx deviceID startDate endDate =
          (Returns (Inl (errorString (spec_api_error_message (Status resp) (StatusCode resp)))),
           c, t @ [CallDo hc req, CallClose])"
  proof (intro impI, elim conjE)
    assume ne: "deviceID \<noteq> []" and hc: "httpClient c = Some hc"
      and b: "newRequest env c ctx ''GET''
                (''api/ValuesInPastMultiple/'' @ deviceID
                   @ ''?startDate='' @ Format_RFC3339 env startDate
                   @ ''&endDate='' @ Format_RFC3339 env endDate) None
              = (Returns (Inr req), c', t)"
    show "GetValuesInPastMultiple env c ctx deviceID startDate endDate =
          (Returns (Inl (errorString (spec_api_error_message (Status resp) (StatusCode resp)))),
           c, t @ [CallDo hc req, CallClose])"
      unfolding GetValuesInPastMultiple_block [OF ne] by (rule built [OF b hc])
  qed
  have devices: "CallDo hc req \<in> set (calls (GetDevices env c ctx)) \<longrightarrow>
        result (GetDevices env c ctx) =
          Returns (Inl (errorString (spec_api_error_message (Status resp) (StatusCode resp))))
        \<and> decoded_bodies (calls (GetDevices env c ctx)) = []"
    unfolding GetDevices_block by (rule impI) (erule blk)
  have vals: "CallDo hc req \<in> set (calls (GetValues env c ctx deviceID)) \<longrightarrow>
        result (GetValues env c ctx deviceID) =
          Returns (Inl (errorString (spec_api_error_message (Status resp) (StatusCode resp))))
        \<and> decoded_bodies (calls (GetValues env c ctx deviceID)) = []"
  proof (cases "deviceID = []")
    case True
    then show ?thesis by (simp add: GetValues_empty)
  next
    case False
    show ?thesis unfolding GetValues_block [OF False] by (rule impI) (erule blk)
  qed
  have past: "CallDo hc req \<in> set (calls (GetValuesInPast env c ctx deviceID date)) \<longrightarrow>
        result (GetValuesInPast env c ctx deviceID date) =
          Returns (Inl (errorString (spec_api_error_message (Status resp) (StatusCode resp))))
        \<and> decoded_bodies (calls (GetValuesInPast env c ctx deviceID date)) = []"
  proof (cases "deviceID = []")
    case True
    then show ?thesis by (simp add: GetValuesInPast_empty)
  next
    case False
    show ?thesis unfolding GetValuesInPast_block [OF False] by (rule impI) (erule blk)
  qed
  have multiple:
    "CallDo hc req \<in> set (calls (GetValuesInPastMultiple env c ctx deviceID startDate endDate)) \<longrightarrow>
        result (GetValuesInPastMultiple env c ctx deviceID startDate endDate) =
          Returns (Inl (errorString (spec_api_error_message (Status resp) (StatusCode resp))))
        \<and> decoded_bodies (calls (GetValuesInPastMultiple env c ctx deviceID startDate endDate)) = []"
  proof (cases "deviceID = []")
    case True
    then show ?thesis by (simp add: GetValuesInPastMultiple_empty)
  next
    case False
    show ?thesis unfolding GetValuesInPastMultiple_block [OF False] by (rule impI) (erule blk)
  qed
  from low devices' vals' past' multiple' devices vals past multiple show ?thesis
    by (intro conjI)
qed

theorem api_error_for_status_400_and_above_witness:
  "Client_Do test_env \<lparr>Transport = None, Timeout = defaultTimeout\<rparr>
       (hd (sent_requests (calls (GetDevices test_env test_client Active))))
     = Inr \<lparr>Status = ''500 Internal Server Error'', StatusCode = 500, Body = ''Internal Server Error''\<rparr>
   \<and> httpClient test_client = Some \<lparr>Transport = None, Timeout = defaultTimeout\<rparr>
   \<and> CallDo \<lparr>Transport = None, Timeout = defaultTimeout\<rparr>
         (hd (sent_requests (calls (GetDevices test_env test_client Active))))
       \<in> set (calls (GetDevices test_env test_client Active))
   \<and> result (GetDevices test_env test_client Active) =
       Returns (Inl (errorString ''API error: 500 Internal Server Error (status code: 500)''))
   \<and> decoded_bodies (calls (GetDevices test_env test_client Active)) = []
   \<and> result (do test_env test_client
         (hd (sent_requests (calls (GetDevices test_env test_client Active))))
         (Some (Decode_Devices test_env))) =
       Returns (Some \<lparr>Status = ''500 Internal Server Error'', StatusCode = 500,
                       Body = ''Internal Server Error''\<rparr>,
                Some (errorString ''API error: 500 Internal Server Error (status code: 500)''),
                None)
   \<and> calls (do test_env test_client
         (hd (sent_requests (calls (GetDevices test_env test_client Active))))
         (Some (Decode_Devices test_env))) =
       [CallDo \<lparr>Transport = None, Timeout = defaultTimeout\<rparr>
          (hd (sent_requests (calls (GetDevices test_env test_client Active)))), CallClose]
   \<and> newRequest test_env test_client Active ''GET'' ''api/Devices'' None =
       (Returns (Inr (hd (sent_requests (calls (GetDevices test_env test_client Active))))),
        test_client,
        [CallParse ''api/Devices'',
         CallNewRequest Active ''GET'' ''https://api.smart-me.com/api/Devices''])
   \<and> calls (GetDevices test_env test_client Active) =
       [CallParse ''api/Devices'',
        CallNewRequest Active ''GET'' ''https://api.smart-me.com/api/Devices'',
        CallDo \<lparr>Transport = None, Timeout = defaultTimeout\<rparr>
          (hd (sent_requests (calls (GetDevices test_env test_client Active)))),
        CallClose]"
proof -
  let ?t = "[CallParse ''api/Devices'',
             CallNewRequest Active ''GET'' ''https://api.smart-me.com/api/Devices'']"
  let ?hc = "\<lparr>Transport = None, Timeout = defaultTimeout\<rparr>"
  let ?req = "hd (sent_requests (calls (GetDevices test_env test_client Active)))"
  let ?resp = "\<lparr>Status = ''500 Internal Server Error'', StatusCode = 500,
                 Body = ''Internal Server Error''\<rparr>"
  have h1: "Client_Do test_env ?hc ?req = Inr ?resp"
    by (simp add: test_env_def)
  have h2: "400 \<le> StatusCode ?resp"
    by simp
  have h3: "CallDo ?hc ?req \<in> set (calls (GetDevices test_env test_client Active))"
    by (simp add: GetDevices_def newRequest_def do_def test_env_def test_client_def
        SetBasicAuth_def Header_Set_def Let_def)
  have h4: "httpClient test_client = Some ?hc"
    by (simp add: test_client_def)
  have h5: "newRequest test_env test_client Active ''GET'' ''api/Devices'' None =
       (Returns (Inr ?req), test_client, ?t)"
    by (simp add: GetDevices_def newRequest_def do_def test_env_def test_client_def
        SetBasicAuth_def Header_Set_def Let_def defaultBaseURL_def)
  have msg: "spec_api_error_message (Status ?resp) (StatusCode ?resp) =
      ''API error: 500 Internal Server Error (status code: 500)''"
    by (simp add: spec_api_error_message_def fmt_d_500)
  note inst = api_error_for_status_400_and_above [OF h1 h2,
      where c = test_client and ctx = Active and v = "Some (Decode_Devices test_env)"
        and deviceID = "''dev-1''" and date = "''2025-01-01T12:00:00Z''"
        and startDate = "''2025-01-01T00:00:00Z''" and endDate = "''2025-01-02T00:00:00Z''"
        and c' = test_client and t = ?t, unfolded msg]
  from inst h3
  have a: "result (GetDevices test_env test_client Active) =
          Returns (Inl (errorString ''API error: 500 Internal Server Error (status code: 500)''))"
    and a': "decoded_bodies (calls (GetDevices test_env test_client Active)) = []"
    by blast+
  from inst h4
  have b: "do test_env test_client ?req (Some (Decode_Devices test_env)) =
          (Returns (Some ?resp,
             Some (errorString ''API error: 500 Internal Server Error (status code: 500)''), None),
           test_client, [CallDo ?hc ?req, CallClose])"
    by blast
  from inst h4 h5
  have d: "GetDevices test_env test_client Active =
          (Returns (Inl (errorString ''API error: 500 Internal Server Error (status code: 500)'')),
           test_client, ?t @ [CallDo ?hc ?req, CallClose])"
    by blast
  have b1: "result (do test_env test_client ?req (Some (Decode_Devices test_env))) =
       Returns (Some ?resp,
                Some (errorString ''API error: 500 Internal Server Error (status code: 500)''),
                None)"
    and b2: "calls (do test_env test_client ?req (Some (Decode_Devices test_env))) =
       [CallDo ?hc ?req, CallClose]"
    by (simp_all only: b result_simp calls_simp)
  have e: "calls (GetDevices test_env test_client Active) =
       [CallParse ''api/Devices'',
        CallNewRequest Active ''GET'' ''https://api.smart-me.com/api/Devices'',
        CallDo ?hc ?req, CallClose]"
    using arg_cong [OF d, of calls] by (simp only: calls_simp append.simps)
  show ?thesis
    by (intro conjI) (fact h1 h4 h3 a a' b1 b2 h5 e)+
qed

text \<open>
  C2. \<^verbatim>\<open>GetValues\<close>, \<^verbatim>\<open>GetValuesInPast\<close> and \<^verbatim>\<open>GetValuesInPastMultiple\<close> called with the
  empty device identifier return the local validation error
  \<^verbatim>\<open>deviceID must not be empty\<close> and make no call outside the package: no path is parsed,
  no request is built, the transport is not invoked.
\<close>

theorem empty_deviceID_rejected_before_any_call:
  "GetValues env c ctx [] =
     (Returns (Inl (errorString ''deviceID must not be empty'')), c, [])
   \<and> GetValuesInPast env c ctx [] date =
     (Returns (Inl (errorString ''deviceID must not be empty'')), c, [])
   \<and> GetValuesInPastMultiple env c ctx [] startDate endDate =
     (Returns (Inl (errorString ''deviceID must not be empty'')), c, [])"
  by (simp add: GetValues_empty GetValuesInPast_empty GetValuesInPastMultiple_empty)

theorem empty_deviceID_rejected_before_any_call_witness:
  "result (GetValues test_env test_client Active []) =
     Returns (Inl (errorString ''deviceID must not be empty''))
   \<and> calls (GetValues test_env test_client Active []) = []
   \<and> sent_requests (calls (GetValuesInPast offline_env test_client Active []
        ''2025-01-01T12:00:00Z'')) = []
   \<and> calls (GetValuesInPastMultiple test_env test_client (Done (errorString ''context canceled'')) []
        ''2025-01-01T00:00:00Z'' ''2025-01-02T00:00:00Z'') = []"
  using empty_deviceID_rejected_before_any_call [of test_env test_client Active
      "''2025-01-01T12:00:00Z''" "''2025-01-01T00:00:00Z''" "''2025-01-02T00:00:00Z''"]
    empty_deviceID_rejected_before_any_call [of offline_env test_client Active
      "''2025-01-01T12:00:00Z''" "''2025-01-01T00:00:00Z''" "''2025-01-02T00:00:00Z''"]
    empty_deviceID_rejected_before_any_call [of test_env test_client "Done (errorString ''context canceled'')"
      "''2025-01-01T12:00:00Z''" "''2025-01-01T00:00:00Z''" "''2025-01-02T00:00:00Z''"]
  by simp

text \<open>
  C3. \<^verbatim>\<open>NewClient\<close> returns an error exactly when the username is empty, whatever the
  password and the options; it returns no client (\<^verbatim>\<open>nil\<close>) exactly in that case, and the
  error then reads \<^verbatim>\<open>username must not be empty\<close>.
\<close>

theorem NewClient_error_iff_username_empty:
  "(snd (NewClient env username' password' opts) \<noteq> None) = (username' = [])
   \<and> (fst (NewClient env username' password' opts) = None) = (username' = [])
   \<and> NewClient env [] password' opts = (None, Some (errorString ''username must not be empty''))"
  by (simp add: NewClient_def Let_def)

theorem NewClient_error_iff_username_empty_witness:
  "NewClient test_env [] ''test-pass'' [WithTimeout 5000000000] =
     (None, Some (errorString ''username must not be empty''))
   \<and> snd (NewClient test_env ''test-user'' [] [WithBaseURL ''%zz'', WithHTTPClient None]) = None
   \<and> fst (NewClient test_env ''test-user'' [] [WithBaseURL ''%zz'', WithHTTPClient None]) \<noteq> None"
  using NewClient_error_iff_username_empty [of test_env "[]" "''test-pass''" "[WithTimeout 5000000000]"]
    NewClient_error_iff_username_empty [of test_env "''test-user''" "[]"
      "[WithBaseURL ''%zz'', WithHTTPClient None]"]
  by simp

text \<open>
  C4, as stated: for every device identifier, \<^verbatim>\<open>GetValuesInPast\<close> builds the path
  \<^verbatim>\<open>api/ValuesInPast/{deviceID}?date=<RFC3339>\<close> and \<^verbatim>\<open>GetValuesInPastMultiple\<close> the path
  \<^verbatim>\<open>api/ValuesInPastMultiple/{deviceID}?startDate=<RFC3339>&endDate=<RFC3339>\<close>. This
  fails for the empty identifier: both methods return at their guard and build no path,
  so the path handed to \<^verbatim>\<open>url.Parse\<close> is not the one the claim gives; nothing is.
\<close>

theorem historical_paths_counterexample:
  "calls (GetValuesInPast test_env test_client Active [] ''2025-01-01T12:00:00Z'') = []
   \<and> parsed_paths (calls (GetValuesInPast test_env test_client Active [] ''2025-01-01T12:00:00Z''))
       \<noteq> [''api/ValuesInPast/'' @ [] @ ''?date='' @ Format_RFC3339 test_env ''2025-01-01T12:00:00Z'']
   \<and> calls (GetValuesInPastMultiple test_env test_client Active []
               ''2025-01-01T00:00:00Z'' ''2025-01-02T00:00:00Z'') = []
   \<and> parsed_paths (calls (GetValuesInPastMultiple test_env test_client Active []
               ''2025-01-01T00:00:00Z'' ''2025-01-02T00:00:00Z''))
       \<noteq> [''api/ValuesInPastMultiple/'' @ [] @ ''?startDate='' @ Format_RFC3339 test_env ''2025-01-01T00:00:00Z''
            @ ''&endDate='' @ Format_RFC3339 test_env ''2025-01-02T00:00:00Z'']"
  by (simp add: GetValuesInPast_empty GetValuesInPastMultiple_empty)

text \<open>
  C4, amended: for every non-empty device identifier and all timestamps,
  \<^verbatim>\<open>GetValuesInPast\<close> hands \<^verbatim>\<open>url.Parse\<close> exactly one path,
  \<^verbatim>\<open>api/ValuesInPast/\<close> followed by the identifier, \<^verbatim>\<open>?date=\<close> and the RFC 3339 text of
  the timestamp, and \<^verbatim>\<open>GetValuesInPastMultiple\<close> exactly one path,
  \<^verbatim>\<open>api/ValuesInPastMultiple/\<close> followed by the identifier, \<^verbatim>\<open>?startDate=\<close>, the RFC 3339
  text of the first timestamp, \<^verbatim>\<open>&endDate=\<close> and the RFC 3339 text of the second; the
  texts stand in the path as \<^verbatim>\<open>Format\<close> returned them.
\<close>

theorem historical_paths_for_nonempty_deviceID:
  assumes "deviceID \<noteq> []"
  shows "parsed_paths (calls (GetValuesInPast env c ctx deviceID date)) =
           [''api/ValuesInPast/'' @ deviceID @ ''?date='' @ Format_RFC3339 env date]
         \<and> parsed_paths (calls (GetValuesInPastMultiple env c ctx deviceID startDate endDate)) =
           [''api/ValuesInPastMultiple/'' @ deviceID @ ''?startDate='' @ Format_RFC3339 env startDate
              @ ''&endDate='' @ Format_RFC3339 env endDate]"
  by (simp add: GetValuesInPast_block [OF assms] GetValuesInPastMultiple_block [OF assms] block_paths)

theorem historical_paths_for_nonempty_deviceID_witness:
  "''dev-1'' \<noteq> []
   \<and> parsed_paths (calls (GetValuesInPast test_env test_client Active ''dev-1''
        ''2025-01-01T12:00:00+02:00'')) =
       [''api/ValuesInPast/dev-1?date=2025-01-01T12:00:00+02:00'']
   \<and> parsed_paths (calls (GetValuesInPastMultiple test_env test_client Active ''dev-1''
        ''2025-01-01T00:00:00Z'' ''2025-01-02T00:00:00Z'')) =
       [''api/ValuesInPastMultiple/dev-1?startDate=2025-01-01T00:00:00Z&endDate=2025-01-02T00:00:00Z'']"
proof -
  have h: "''dev-1'' \<noteq> []" by simp
  from historical_paths_for_nonempty_deviceID [OF h, of test_env test_client Active
      "''2025-01-01T12:00:00+02:00''" "''2025-01-01T00:00:00Z''" "''2025-01-02T00:00:00Z''"]
  show ?thesis by (simp add: test_env_def)
qed

text \<open>
  C5. For a client that \<^verbatim>\<open>NewClient\<close> built from the username \<open>u\<close> and the password
  \<open>p\<close>, every request \<^verbatim>\<open>newRequest\<close> builds has the header \<^verbatim>\<open>Authorization\<close> set to
  \<^verbatim>\<open>Basic\<close> and the credential text of \<open>u\<close> and \<open>p\<close>, the header \<^verbatim>\<open>Accept\<close> set to
  \<^verbatim>\<open>application/json\<close>, and the header \<^verbatim>\<open>Content-Type\<close> set to \<^verbatim>\<open>application/json\<close> if
  and only if a body is present and absent otherwise. Every request the four API methods
  send is built without a body, so it has no \<^verbatim>\<open>Content-Type\<close>.
\<close>

theorem requests_carry_credentials_and_json_headers:
  assumes "NewClient env u p opts = (Some c, None)"
  shows
    "(newRequest env c ctx method path body = (Returns (Inr req), c', t) \<longrightarrow>
        spec_headers env u p body req)
     \<and> (\<forall>r \<in> set (sent_requests (calls (GetDevices env c ctx))). spec_headers env u p None r)
     \<and> (\<forall>r \<in> set (sent_requests (calls (GetValues env c ctx deviceID))).
          spec_headers env u p None r)
     \<and> (\<forall>r \<in> set (sent_requests (calls (GetValuesInPast env c ctx deviceID date))).
          spec_headers env u p None r)
     \<and> (\<forall>r \<in> set (sent_requests
                       (calls (GetValuesInPastMultiple env c ctx deviceID startDate endDate))).
          spec_headers env u p None r)"
proof -
  note cred = NewClient_credentials [OF assms]
  have build: "newRequest env c ctx method path body = (Returns (Inr req), c', t) \<longrightarrow>
        spec_headers env u p body req"
    using newRequest_spec_headers [of env c ctx "method" path body req c' t] cred by simp
  have blk: "\<And>r path d z. r \<in> set (sent_requests (calls (request_and_decode env c ctx path d z)))
      \<Longrightarrow> spec_headers env u p None r"
    using block_sent_headers cred by metis
  have devices: "\<forall>r \<in> set (sent_requests (calls (GetDevices env c ctx))). spec_headers env u p None r"
    unfolding GetDevices_block by (rule ballI) (erule blk)
  have vals: "\<forall>r \<in> set (sent_requests (calls (GetValues env c ctx deviceID))).
          spec_headers env u p None r"
  proof (cases "deviceID = []")
    case True
    then show ?thesis by (simp add: GetValues_empty)
  next
    case False
    show ?thesis unfolding GetValues_block [OF False] by (rule ballI) (erule blk)
  qed
  have past: "\<forall>r \<in> set (sent_requests (calls (GetValuesInPast env c ctx deviceID date))).
          spec_headers env u p None r"
  proof (cases "deviceID = []")
    case True
    then show ?thesis by (simp add: GetValuesInPast_empty)
  next
    case False
    show ?thesis unfolding GetValuesInPast_block [OF False] by (rule ballI) (erule blk)
  qed
  have multiple: "\<forall>r \<in> set (sent_requests
                       (calls (GetValuesInPastMultiple env c ctx deviceID startDate endDate))).
          spec_headers env u p None r"
  proof (cases "deviceID = []")
    case True
    then show ?thesis by (simp add: GetValuesInPastMultiple_empty)
  next
    case False
    show ?thesis unfolding GetValuesInPastMultiple_block [OF False] by (rule ballI) (erule blk)
  qed
  from build devices vals past multiple show ?thesis by blast
qed

theorem requests_carry_credentials_and_json_headers_witness:
  "NewClient test_env ''test-user'' ''test-pass'' [] = (Some test_client, None)
   \<and> sent_requests (calls (GetDevices test_env test_client Active)) \<noteq> []
   \<and> spec_headers test_env ''test-user'' ''test-pass'' None
        (hd (sent_requests (calls (GetDevices test_env test_client Active))))
   \<and> Header (hd (sent_requests (calls (GetDevices test_env test_client Active)))) ''Authorization''
        = Some ''Basic test-user:test-pass''
   \<and> Header (hd (sent_requests (calls (GetDevices test_env test_client Active)))) ''Content-Type''
        = None
   \<and> (case result (newRequest test_env test_client Active ''POST'' ''api/Devices'' (Some ''{}'')) of
        Returns (Inr req) \<Rightarrow> Header req ''Content-Type'' = Some ''application/json''
                              \<and> Header req ''Accept'' = Some ''application/json''
      | _ \<Rightarrow> False)"
proof -
  have h: "NewClient test_env ''test-user'' ''test-pass'' [] = (Some test_client, None)"
    by (simp add: NewClient_def test_env_def test_client_def Let_def defaultBaseURL_def)
  have ev: "sent_requests (calls (GetDevices test_env test_client Active)) \<noteq> []"
    by (simp add: GetDevices_def newRequest_def do_def test_env_def test_client_def Let_def)
  obtain req c' t where
    nr: "newRequest test_env test_client Active ''POST'' ''api/Devices'' (Some ''{}'')
           = (Returns (Inr req), c', t)"
    by (simp add: newRequest_def test_env_def test_client_def Let_def)
  note inst = requests_carry_credentials_and_json_headers [OF h,
      of Active "''POST''" "''api/Devices''" "Some ''{}''" req c' t]
  from inst ev
  have s: "spec_headers test_env ''test-user'' ''test-pass'' None
        (hd (sent_requests (calls (GetDevices test_env test_client Active))))"
    by (meson hd_in_set)
  from inst nr have s': "spec_headers test_env ''test-user'' ''test-pass'' (Some ''{}'') req"
    by blast
  from s have "Header (hd (sent_requests (calls (GetDevices test_env test_client Active)))) ''Authorization''
        = Some ''Basic test-user:test-pass''
      \<and> Header (hd (sent_requests (calls (GetDevices test_env test_client Active)))) ''Content-Type''
        = None"
    by (simp add: spec_headers_def test_env_def)
  with h ev s s' nr show ?thesis by (simp add: spec_headers_def)
qed

text \<open>
  C6. When the text given to \<^verbatim>\<open>WithBaseURL\<close> does not parse, the option leaves the
  client as it is; in \<^verbatim>\<open>NewClient\<close> the option can be dropped from the list without
  changing what is returned, so with no other option the base URL is the parsed default
  endpoint, and no error is returned for a non-empty username. When the text parses, the
  option replaces the base URL by the parsed value.
\<close>

theorem WithBaseURL_ignored_when_malformed:
  "(url_Parse env s = Inl e \<longrightarrow>
      apply_Option env (WithBaseURL s) c = c
      \<and> NewClient env u p (opts @ WithBaseURL s # opts') = NewClient env u p (opts @ opts')
      \<and> NewClient env u p [WithBaseURL s] = NewClient env u p [])
   \<and> (url_Parse env s = Inr parsed \<longrightarrow>
      apply_Option env (WithBaseURL s) c = c\<lparr>baseURL := Some parsed\<rparr>)
   \<and> (u \<noteq> [] \<longrightarrow>
      map_option baseURL (fst (NewClient env u p [])) =
        Some (case url_Parse env defaultBaseURL of Inr d \<Rightarrow> Some d | Inl err \<Rightarrow> None)
      \<and> snd (NewClient env u p (opts @ WithBaseURL s # opts')) = None)"
proof -
  have bad: "url_Parse env s = Inl e \<longrightarrow>
      apply_Option env (WithBaseURL s) c = c
      \<and> NewClient env u p (opts @ WithBaseURL s # opts') = NewClient env u p (opts @ opts')
      \<and> NewClient env u p [WithBaseURL s] = NewClient env u p []"
  proof
    assume f: "url_Parse env s = Inl e"
    then have same: "\<And>c. apply_Option env (WithBaseURL s) (c :: 'a Client) = c" by simp
    from NewClient_drop_option [of env "WithBaseURL s", OF same]
    have "NewClient env u p (opts @ WithBaseURL s # opts') = NewClient env u p (opts @ opts')"
      and "NewClient env u p ([] @ WithBaseURL s # []) = NewClient env u p ([] @ [])"
      by blast+
    with same show "apply_Option env (WithBaseURL s) c = c
      \<and> NewClient env u p (opts @ WithBaseURL s # opts') = NewClient env u p (opts @ opts')
      \<and> NewClient env u p [WithBaseURL s] = NewClient env u p []" by simp
  qed
  have good: "url_Parse env s = Inr parsed \<longrightarrow>
      apply_Option env (WithBaseURL s) c = c\<lparr>baseURL := Some parsed\<rparr>"
    by simp
  have dflt: "u \<noteq> [] \<longrightarrow>
      map_option baseURL (fst (NewClient env u p [])) =
        Some (case url_Parse env defaultBaseURL of Inr d \<Rightarrow> Some d | Inl err \<Rightarrow> None)
      \<and> snd (NewClient env u p (opts @ WithBaseURL s # opts')) = None"
    by (simp add: NewClient_def Let_def)
  from bad good dflt show ?thesis by blast
qed

theorem WithBaseURL_ignored_when_malformed_witness:
  "url_Parse test_env ''%zz'' = Inl (errorString ''invalid URL escape'')
   \<and> NewClient test_env ''test-user'' ''test-pass'' [WithBaseURL ''%zz''] = (Some test_client, None)
   \<and> url_Parse test_env ''http://127.0.0.1:8080/'' = Inr ''http://127.0.0.1:8080/''
   \<and> apply_Option test_env (WithBaseURL ''http://127.0.0.1:8080/'') test_client =
       test_client\<lparr>baseURL := Some ''http://127.0.0.1:8080/''\<rparr>
   \<and> ''test-user'' \<noteq> []
   \<and> snd (NewClient test_env ''test-user'' ''test-pass''
          [WithTimeout 5, WithBaseURL ''%zz'', WithHTTPClient None]) = None"
proof -
  have h1: "url_Parse test_env ''%zz'' = Inl (errorString ''invalid URL escape'')"
    and h2: "url_Parse test_env ''http://127.0.0.1:8080/'' = Inr ''http://127.0.0.1:8080/''"
    and h3: "''test-user'' \<noteq> []"
    by (simp_all add: test_env_def)
  have base: "NewClient test_env ''test-user'' ''test-pass'' [] = (Some test_client, None)"
    by (simp add: NewClient_def test_env_def test_client_def Let_def defaultBaseURL_def)
  note thm1 = WithBaseURL_ignored_when_malformed [of test_env "''%zz''" "errorString ''invalid URL escape''"
      test_client "''test-user''" "''test-pass''" "[WithTimeout 5]" "[WithHTTPClient None]"]
  note thm2 = WithBaseURL_ignored_when_malformed [of test_env "''http://127.0.0.1:8080/''" _
      test_client _ _ _ _ "''http://127.0.0.1:8080/''"]
  from thm1 h1 base have a: "NewClient test_env ''test-user'' ''test-pass'' [WithBaseURL ''%zz'']
      = (Some test_client, None)" by simp
  from thm1 h3 have b: "snd (NewClient test_env ''test-user'' ''test-pass''
          [WithTimeout 5, WithBaseURL ''%zz'', WithHTTPClient None]) = None" by simp
  from thm2 h2 have c: "apply_Option test_env (WithBaseURL ''http://127.0.0.1:8080/'') test_client =
       test_client\<lparr>baseURL := Some ''http://127.0.0.1:8080/''\<rparr>" by blast
  from h1 h2 h3 a b c show ?thesis by blast
qed

text \<open>
  C7. When the transport fails with an error, \<^verbatim>\<open>do\<close> returns the error of the context
  if the context is done when the failure is observed, and the transport's error, as it
  is, otherwise; each of the four API methods returns that same error to its caller.
\<close>

theorem transport_failure_yields_context_error_when_done:
  assumes "Client_Do env hc req = Inl err"
  shows
    "(httpClient c = Some hc \<longrightarrow>
        result (do env c req v) =
          Returns (None, Some (case Ctx req of Done cerr \<Rightarrow> cerr | _ \<Rightarrow> err), None))
     \<and> (CallDo hc req \<in> set (calls (GetDevices env c ctx)) \<longrightarrow>
        result (GetDevices env c ctx) =
          Returns (Inl (case ctx of Done cerr \<Rightarrow> cerr | _ \<Rightarrow> err)))
     \<and> (CallDo hc req \<in> set (calls (GetValues env c ctx deviceID)) \<longrightarrow>
        result (GetValues env c ctx deviceID) =
          Returns (Inl (case ctx of Done cerr \<Rightarrow> cerr | _ \<Rightarrow> err)))
     \<and> (CallDo hc req \<in> set (calls (GetValuesInPast env c ctx deviceID date)) \<longrightarrow>
        result (GetValuesInPast env c ctx deviceID date) =
          Returns (Inl (case ctx of Done cerr \<Rightarrow> cerr | _ \<Rightarrow> err)))
     \<and> (CallDo hc req \<in> set (calls (GetValuesInPastMultiple env c ctx deviceID startDate endDate)) \<longrightarrow>
        result (GetValuesInPastMultiple env c ctx deviceID startDate endDate) =
          Returns (Inl (case ctx of Done cerr \<Rightarrow> cerr | _ \<Rightarrow> err)))"
proof -
  note blk = block_transport_error [OF _ assms]
  have low: "httpClient c = Some hc \<longrightarrow>
        result (do env c req v) =
          Returns (None, Some (case Ctx req of Done cerr \<Rightarrow> cerr | _ \<Rightarrow> err), None)"
    by (simp add: do_transport_error [OF _ assms])
  have devices: "CallDo hc req \<in> set (calls (GetDevices env c ctx)) \<longrightarrow>
        result (GetDevices env c ctx) =
          Returns (Inl (case ctx of Done cerr \<Rightarrow> cerr | _ \<Rightarrow> err))"
    unfolding GetDevices_block by (rule impI) (erule blk)
  have vals: "CallDo hc req \<in> set (calls (GetValues env c ctx deviceID)) \<longrightarrow>
        result (GetValues env c ctx deviceID) =
          Returns (Inl (case ctx of Done cerr \<Rightarrow> cerr | _ \<Rightarrow> err))"
  proof (cases "deviceID = []")
    case True
    then show ?thesis by (simp add: GetValues_empty)
  next
    case False
    show ?thesis unfolding GetValues_block [OF False] by (rule impI) (erule blk)
  qed
  have past: "CallDo hc req \<in> set (calls (GetValuesInPast env c ctx deviceID date)) \<longrightarrow>
        result (GetValuesInPast env c ctx deviceID date) =
          Returns (Inl (case ctx of Done cerr \<Rightarrow> cerr | _ \<Rightarrow> err))"
  proof (cases "deviceID = []")
    case True
    then show ?thesis by (simp add: GetValuesInPast_empty)
  next
    case False
    show ?thesis unfolding GetValuesInPast_block [OF False] by (rule impI) (erule blk)
  qed
  have multiple:
    "CallDo hc req \<in> set (calls (GetValuesInPastMultiple env c ctx deviceID startDate endDate)) \<longrightarrow>
        result (GetValuesInPastMultiple env c ctx deviceID startDate endDate) =
          Returns (Inl (case ctx of Done cerr \<Rightarrow> cerr | _ \<Rightarrow> err))"
  proof (cases "deviceID = []")
    case True
    then show ?thesis by (simp add: GetValuesInPastMultiple_empty)
  next
    case False
    show ?thesis unfolding GetValuesInPastMultiple_block [OF False] by (rule impI) (erule blk)
  qed
  from low devices vals past multiple show ?thesis by blast
qed

theorem transport_failure_yields_context_error_when_done_witness:
  "Client_Do offline_env \<lparr>Transport = None, Timeout = defaultTimeout\<rparr>
       (hd (sent_requests (calls (GetDevices offline_env test_client (Done (errorString ''context canceled''))))))
     = Inl (errorString ''dial tcp: connection refused'')
   \<and> CallDo \<lparr>Transport = None, Timeout = defaultTimeout\<rparr>
         (hd (sent_requests (calls (GetDevices offline_env test_client (Done (errorString ''context canceled''))))))
       \<in> set (calls (GetDevices offline_env test_client (Done (errorString ''context canceled''))))
   \<and> result (GetDevices offline_env test_client (Done (errorString ''context canceled''))) =
       Returns (Inl (errorString ''context canceled''))
   \<and> CallDo \<lparr>Transport = None, Timeout = defaultTimeout\<rparr>
         (hd (sent_requests (calls (GetValues offline_env test_client Active ''dev-1''))))
       \<in> set (calls (GetValues offline_env test_client Active ''dev-1''))
   \<and> result (GetValues offline_env test_client Active ''dev-1'') =
       Returns (Inl (errorString ''dial tcp: connection refused''))"
proof -
  let ?hc = "\<lparr>Transport = None, Timeout = defaultTimeout\<rparr>"
  let ?ctx = "Done (errorString ''context canceled'')"
  let ?req = "hd (sent_requests (calls (GetDevices offline_env test_client ?ctx)))"
  let ?req' = "hd (sent_requests (calls (GetValues offline_env test_client Active ''dev-1'')))"
  have h1: "Client_Do offline_env ?hc ?req = Inl (errorString ''dial tcp: connection refused'')"
    and h1': "Client_Do offline_env ?hc ?req' = Inl (errorString ''dial tcp: connection refused'')"
    by (simp_all add: offline_env_def)
  have h2: "CallDo ?hc ?req \<in> set (calls (GetDevices offline_env test_client ?ctx))"
    by (simp add: GetDevices_def newRequest_def do_def offline_env_def test_env_def test_client_def
        SetBasicAuth_def Header_Set_def Let_def)
  have h2': "CallDo ?hc ?req' \<in> set (calls (GetValues offline_env test_client Active ''dev-1''))"
    by (simp add: GetValues_def newRequest_def do_def offline_env_def test_env_def test_client_def
        SetBasicAuth_def Header_Set_def Let_def)
  from transport_failure_yields_context_error_when_done [OF h1, where c = test_client and ctx = ?ctx and deviceID = "''dev-1''"
        and v = "None :: (string \<Rightarrow> error + nat) option" and date = "''2025-01-01T12:00:00Z''"
        and startDate = "''2025-01-01T00:00:00Z''" and endDate = "''2025-01-02T00:00:00Z''"] h2
  have a: "result (GetDevices offline_env test_client ?ctx) = Returns (Inl (errorString ''context canceled''))"
    by simp
  from transport_failure_yields_context_error_when_done [OF h1', where c = test_client and ctx = Active and deviceID = "''dev-1''"
        and v = "None :: (string \<Rightarrow> error + nat) option" and date = "''2025-01-01T12:00:00Z''"
        and startDate = "''2025-01-01T00:00:00Z''" and endDate = "''2025-01-02T00:00:00Z''"] h2'
  have b: "result (GetValues offline_env test_client Active ''dev-1'') =
       Returns (Inl (errorString ''dial tcp: connection refused''))"
    by simp
  from h1 h2 h2' a b show ?thesis by simp
qed

text \<open>
  C8. For every non-empty username \<^verbatim>\<open>NewClient\<close> succeeds. If the options left the
  client without a transport (in particular when no option touches the transport), the
  client returned holds a new \<^verbatim>\<open>http.Client\<close> whose timeout is \<open>defaultTimeout\<close>, which is
  10 seconds (10 000 000 000 nanoseconds); if the options left it with a transport, the
  client returned holds that transport and no default is created.
\<close>

theorem NewClient_attaches_default_transport:
  assumes "username' \<noteq> []"
  shows "\<exists>c. NewClient env username' password' opts = (Some c, None)
     \<and> httpClient c =
         (case httpClient (after_options env username' password' opts) of
            None \<Rightarrow> Some \<lparr>Transport = None, Timeout = defaultTimeout\<rparr>
          | Some hc \<Rightarrow> Some hc)
     \<and> ((\<forall>opt \<in> set opts. \<exists>s. opt = WithBaseURL s) \<longrightarrow>
          httpClient c = Some \<lparr>Transport = None, Timeout = defaultTimeout\<rparr>)
     \<and> sint defaultTimeout = 10 * 1000000000"
  using NewClient_after_options [OF assms, of env password' opts]
    after_options_no_transport [of opts env username' password'] sint_defaultTimeout
  by (auto split: option.splits)

theorem NewClient_attaches_default_transport_witness:
  "''test-user'' \<noteq> []
   \<and> NewClient test_env ''test-user'' ''test-pass'' [WithBaseURL ''http://127.0.0.1:8080/''] =
       (Some \<lparr>httpClient = Some \<lparr>Transport = None, Timeout = 10000000000\<rparr>,
              baseURL = Some ''http://127.0.0.1:8080/'',
              username = ''test-user'', password = ''test-pass''\<rparr>, None)
   \<and> map_option httpClient (fst (NewClient test_env ''test-user'' ''test-pass'' [WithTimeout 5000000000])) =
       Some (Some \<lparr>Transport = None, Timeout = 5000000000\<rparr>)
   \<and> map_option httpClient (fst (NewClient test_env ''test-user'' ''test-pass''
        [WithHTTPClient (Some \<lparr>Transport = Some 7, Timeout = 0\<rparr>)])) =
       Some (Some \<lparr>Transport = Some 7, Timeout = 0\<rparr>)"
proof -
  have h: "''test-user'' \<noteq> []" by simp
  have o1: "\<forall>opt \<in> set [WithBaseURL ''http://127.0.0.1:8080/'']. \<exists>s. opt = WithBaseURL s" by simp
  from NewClient_attaches_default_transport [OF h, of test_env "''test-pass''"
      "[WithBaseURL ''http://127.0.0.1:8080/'']"] o1
  obtain c where c: "NewClient test_env ''test-user'' ''test-pass'' [WithBaseURL ''http://127.0.0.1:8080/'']
      = (Some c, None)" "httpClient c = Some \<lparr>Transport = None, Timeout = defaultTimeout\<rparr>"
    by blast
  from c have a: "NewClient test_env ''test-user'' ''test-pass'' [WithBaseURL ''http://127.0.0.1:8080/''] =
       (Some \<lparr>httpClient = Some \<lparr>Transport = None, Timeout = 10000000000\<rparr>,
              baseURL = Some ''http://127.0.0.1:8080/'',
              username = ''test-user'', password = ''test-pass''\<rparr>, None)"
    by (simp add: NewClient_def test_env_def Let_def defaultTimeout_def Second_def)
  from NewClient_attaches_default_transport [OF h, of test_env "''test-pass''" "[WithTimeout 5000000000]"]
  have b: "map_option httpClient (fst (NewClient test_env ''test-user'' ''test-pass'' [WithTimeout 5000000000])) =
       Some (Some \<lparr>Transport = None, Timeout = 5000000000\<rparr>)"
    by (auto simp: after_options_def)
  from NewClient_attaches_default_transport [OF h, of test_env "''test-pass''"
      "[WithHTTPClient (Some \<lparr>Transport = Some 7, Timeout = 0\<rparr>)]"]
  have d: "map_option httpClient (fst (NewClient test_env ''test-user'' ''test-pass''
        [WithHTTPClient (Some \<lparr>Transport = Some 7, Timeout = 0\<rparr>)])) =
       Some (Some \<lparr>Transport = Some 7, Timeout = 0\<rparr>)"
    by (auto simp: after_options_def)
  from h a b d show ?thesis by simp
qed

text \<open>
  C9. None of the four API methods writes a field of the client: after the call, whether
  it returned a value, returned an error or panicked, the client is the one it was called
  on.
\<close>

theorem api_methods_leave_client_unchanged:
  "client_after (GetDevices env c ctx) = c
   \<and> client_after (GetValues env c ctx deviceID) = c
   \<and> client_after (GetValuesInPast env c ctx deviceID date) = c
   \<and> client_after (GetValuesInPastMultiple env c ctx deviceID startDate endDate) = c"
proof (cases "deviceID = []")
  case True
  then show ?thesis
    by (simp add: GetDevices_block block_client GetValues_empty GetValuesInPast_empty
        GetValuesInPastMultiple_empty)
next
  case False
  then show ?thesis
    by (simp add: GetDevices_block GetValues_block GetValuesInPast_block
        GetValuesInPastMultiple_block block_client)
qed

theorem api_methods_leave_client_unchanged_witness:
  "client_after (GetDevices test_env test_client Active) = test_client
   \<and> client_after (GetValues offline_env test_client Active ''dev-1'') = test_client
   \<and> client_after (GetValuesInPast test_env test_client Active [] ''2025-01-01T12:00:00Z'')
       = test_client
   \<and> client_after (GetValuesInPastMultiple test_env (test_client\<lparr>httpClient := None\<rparr>) Active
        ''dev-1'' ''2025-01-01T00:00:00Z'' ''2025-01-02T00:00:00Z'')
       = test_client\<lparr>httpClient := None\<rparr>
   \<and> result (GetValuesInPastMultiple test_env (test_client\<lparr>httpClient := None\<rparr>) Active
        ''dev-1'' ''2025-01-01T00:00:00Z'' ''2025-01-02T00:00:00Z'') = Panics"
proof -
  have p: "result (GetValuesInPastMultiple test_env (test_client\<lparr>httpClient := None\<rparr>) Active
        ''dev-1'' ''2025-01-01T00:00:00Z'' ''2025-01-02T00:00:00Z'') = Panics"
    by (simp add: GetValuesInPastMultiple_def newRequest_def do_def test_env_def test_client_def Let_def)
  from p api_methods_leave_client_unchanged [of test_env test_client Active]
    api_methods_leave_client_unchanged [of offline_env test_client Active "''dev-1''"]
    api_methods_leave_client_unchanged [of test_env test_client Active "[]" "''2025-01-01T12:00:00Z''"]
    api_methods_leave_client_unchanged [of test_env "test_client\<lparr>httpClient := None\<rparr>" Active
      "''dev-1''" _ "''2025-01-01T00:00:00Z''" "''2025-01-02T00:00:00Z''"]
  show ?thesis by simp
qed

text \<open>
  C10. For every non-empty device identifier, \<^verbatim>\<open>GetValues\<close>, \<^verbatim>\<open>GetValuesInPast\<close> and
  \<^verbatim>\<open>GetValuesInPastMultiple\<close> put the identifier into the path as it is, with no escaping and no further check, and hand
  that text to \<^verbatim>\<open>url.Parse\<close>. What the characters of the identifier mean is then decided
  by \<^verbatim>\<open>url.Parse\<close> alone: if it rejects the text, the method returns the error wrapped as
  \<^verbatim>\<open>failed to create request: ...\<close> and sends nothing; if it accepts, the request is built
  for the URL that the parsed reference resolves to against the base URL.
\<close>

theorem deviceID_interpolated_raw:
  assumes "deviceID \<noteq> []"
  shows
    "parsed_paths (calls (GetValues env c ctx deviceID)) = [''api/Values/'' @ deviceID]
     \<and> parsed_paths (calls (GetValuesInPast env c ctx deviceID date)) =
         [''api/ValuesInPast/'' @ deviceID @ ''?date='' @ Format_RFC3339 env date]
     \<and> parsed_paths (calls (GetValuesInPastMultiple env c ctx deviceID startDate endDate)) =
         [''api/ValuesInPastMultiple/'' @ deviceID @ ''?startDate='' @ Format_RFC3339 env startDate
            @ ''&endDate='' @ Format_RFC3339 env endDate]
     \<and> (\<forall>e. url_Parse env (''api/Values/'' @ deviceID) = Inl e \<longrightarrow>
          GetValues env c ctx deviceID =
            (Returns (Inl (Errorf_w ''failed to create request: '' e)), c,
             [CallParse (''api/Values/'' @ deviceID)]))
     \<and> (\<forall>e. url_Parse env (''api/ValuesInPast/'' @ deviceID @ ''?date='' @ Format_RFC3339 env date)
              = Inl e \<longrightarrow>
          GetValuesInPast env c ctx deviceID date =
            (Returns (Inl (Errorf_w ''failed to create request: '' e)), c,
             [CallParse (''api/ValuesInPast/'' @ deviceID @ ''?date='' @ Format_RFC3339 env date)]))
     \<and> (\<forall>rel base. url_Parse env (''api/Values/'' @ deviceID) = Inr rel \<and> baseURL c = Some base \<longrightarrow>
          (\<exists>rest. calls (GetValues env c ctx deviceID) =
             CallParse (''api/Values/'' @ deviceID)
             # CallNewRequest ctx ''GET'' (URL_String env (ResolveReference env base rel)) # rest))
     \<and> (\<forall>rel base.
          url_Parse env (''api/ValuesInPast/'' @ deviceID @ ''?date='' @ Format_RFC3339 env date)
            = Inr rel \<and> baseURL c = Some base \<longrightarrow>
          (\<exists>rest. calls (GetValuesInPast env c ctx deviceID date) =
             CallParse (''api/ValuesInPast/'' @ deviceID @ ''?date='' @ Format_RFC3339 env date)
             # CallNewRequest ctx ''GET'' (URL_String env (ResolveReference env base rel)) # rest))"
proof -
  let ?p1 = "''api/Values/'' @ deviceID"
  let ?p2 = "''api/ValuesInPast/'' @ deviceID @ ''?date='' @ Format_RFC3339 env date"
  note v = GetValues_block [OF assms, of env c ctx]
  note w = GetValuesInPast_block [OF assms, of env c ctx date]
  have a: "parsed_paths (calls (GetValues env c ctx deviceID)) = [?p1]"
    by (simp only: v block_paths)
  have b: "parsed_paths (calls (GetValuesInPast env c ctx deviceID date)) = [?p2]"
    by (simp only: w block_paths)
  have b': "parsed_paths (calls (GetValuesInPastMultiple env c ctx deviceID startDate endDate)) =
         [''api/ValuesInPastMultiple/'' @ deviceID @ ''?startDate='' @ Format_RFC3339 env startDate
            @ ''&endDate='' @ Format_RFC3339 env endDate]"
    by (simp only: GetValuesInPastMultiple_block [OF assms] block_paths)
  have c: "\<forall>e. url_Parse env ?p1 = Inl e \<longrightarrow>
          GetValues env c ctx deviceID =
            (Returns (Inl (Errorf_w ''failed to create request: '' e)), c, [CallParse ?p1])"
    by (simp only: v) (intro allI impI, erule block_parse_error)
  have d: "\<forall>e. url_Parse env ?p2 = Inl e \<longrightarrow>
          GetValuesInPast env c ctx deviceID date =
            (Returns (Inl (Errorf_w ''failed to create request: '' e)), c, [CallParse ?p2])"
    by (simp only: w) (intro allI impI, erule block_parse_error)
  have e: "\<forall>rel base. url_Parse env ?p1 = Inr rel \<and> baseURL c = Some base \<longrightarrow>
          (\<exists>rest. calls (GetValues env c ctx deviceID) =
             CallParse ?p1
             # CallNewRequest ctx ''GET'' (URL_String env (ResolveReference env base rel)) # rest)"
    by (simp only: v) (intro allI impI, elim conjE, erule (1) block_parse_ok)
  have f: "\<forall>rel base. url_Parse env ?p2 = Inr rel \<and> baseURL c = Some base \<longrightarrow>
          (\<exists>rest. calls (GetValuesInPast env c ctx deviceID date) =
             CallParse ?p2
             # CallNewRequest ctx ''GET'' (URL_String env (ResolveReference env base rel)) # rest)"
    by (simp only: w) (intro allI impI, elim conjE, erule (1) block_parse_ok)
  from a b b' c d e f show ?thesis by (intro conjI)
qed

theorem deviceID_interpolated_raw_witness:
  "''a/b?x=1#f'' \<noteq> []
   \<and> calls (GetValues test_env test_client Active ''a/b?x=1#f'') ! 0 =
       CallParse ''api/Values/a/b?x=1#f''
   \<and> calls (GetValues test_env test_client Active ''a/b?x=1#f'') ! 1 =
       CallNewRequest Active ''GET'' ''https://api.smart-me.com/api/Values/a/b?x=1#f''
   \<and> parsed_paths (calls (GetValuesInPast test_env test_client Active ''a/b?x=1#f''
        ''2025-01-01T12:00:00Z'')) = [''api/ValuesInPast/a/b?x=1#f?date=2025-01-01T12:00:00Z'']
   \<and> GetValues test_env test_client Active ''50%'' =
       (Returns (Inl (wrapError ''failed to create request: invalid URL escape''
                        (errorString ''invalid URL escape''))),
        test_client, [CallParse ''api/Values/50%''])"
proof -
  have h: "''a/b?x=1#f'' \<noteq> []" and h': "''50%'' \<noteq> []" by simp_all
  have ok: "url_Parse test_env (''api/Values/'' @ ''a/b?x=1#f'') = Inr ''api/Values/a/b?x=1#f''
      \<and> baseURL test_client = Some ''https://api.smart-me.com/''"
    by (simp add: test_env_def test_client_def defaultBaseURL_def)
  have bad: "url_Parse test_env (''api/Values/'' @ ''50%'') = Inl (errorString ''invalid URL escape'')"
    by (simp add: test_env_def)
  note t1 = deviceID_interpolated_raw [OF h, of test_env test_client Active "''2025-01-01T12:00:00Z''"]
  note t2 = deviceID_interpolated_raw [OF h', of test_env test_client Active "''2025-01-01T12:00:00Z''"]
  from t1 ok obtain rest where
    "calls (GetValues test_env test_client Active ''a/b?x=1#f'') =
       CallParse (''api/Values/'' @ ''a/b?x=1#f'')
       # CallNewRequest Active ''GET''
           (URL_String test_env (ResolveReference test_env ''https://api.smart-me.com/''
              ''api/Values/a/b?x=1#f'')) # rest"
    by blast
  then have a: "calls (GetValues test_env test_client Active ''a/b?x=1#f'') ! 0 =
       CallParse ''api/Values/a/b?x=1#f''
     \<and> calls (GetValues test_env test_client Active ''a/b?x=1#f'') ! 1 =
       CallNewRequest Active ''GET'' ''https://api.smart-me.com/api/Values/a/b?x=1#f''"
    by (simp add: test_env_def)
  from t1 have b: "parsed_paths (calls (GetValuesInPast test_env test_client Active ''a/b?x=1#f''
        ''2025-01-01T12:00:00Z'')) = [''api/ValuesInPast/a/b?x=1#f?date=2025-01-01T12:00:00Z'']"
    by (simp add: test_env_def)
  from t2 bad have c: "GetValues test_env test_client Active ''50%'' =
       (Returns (Inl (wrapError ''failed to create request: invalid URL escape''
                        (errorString ''invalid URL escape''))),
        test_client, [CallParse ''api/Values/50%''])"
    by (simp add: Errorf_w_def)
  from h a b c show ?thesis by simp
qed

end
